theory Spec2Isabelle
  imports Main "HOL-Library.AList" "HOL-Library.Sublist"
begin

section \<open>The APG package installer (src/src/installer.py)\<close>

text \<open>
  A shallow embedding of \<^verbatim>\<open>Package\<close>, \<^verbatim>\<open>Installer\<close> and \<^verbatim>\<open>InstallerThread\<close>.
  Exceptions are values of the type \<open>error\<close>; every operation that can raise returns
  its result together with the state it leaves behind, since the effects made before
  a raise persist.

  A Python \<^verbatim>\<open>str\<close> is the list of its code points (\<open>pystr\<close>), a \<^verbatim>\<open>bytes\<close> value a
  \<open>string\<close>.  The file system is kept in separate stores: the target root, the backup
  directory (flat), the temporary directories and the package archives; a payload
  is assumed not to reach into the backup or temporary directories.  Archive members
  are regular files and directories.  Whatever a path does that leaves its store (an
  absolute or \<^verbatim>\<open>..\<close> checksum path, a backup name with a slash) is left to the
  collaborators of the record \<open>ext\<close>, so nothing is claimed about it.  An archive
  either unpacks wholly or cannot be opened; creating a temporary directory and
  writing an archive into the backup directory do not fail.  The messages of the
  errors that the interpreter raises itself are abbreviated.
\<close>

subsection \<open>Strings\<close>

type_synonym pystr = "nat list"

text \<open>A string literal of the source.\<close>

definition U :: "string \<Rightarrow> pystr" where
  "U s = map of_char s"

text \<open>The characters \<^verbatim>\<open>str.strip()\<close> removes: those for which \<^verbatim>\<open>str.isspace\<close> holds.\<close>

definition is_space :: "nat \<Rightarrow> bool" where
  "is_space n = ((9 \<le> n \<and> n \<le> 13) \<or> (28 \<le> n \<and> n \<le> 32) \<or> n = 133 \<or> n = 160
                 \<or> n = 5760 \<or> (8192 \<le> n \<and> n \<le> 8202) \<or> n = 8232 \<or> n = 8233
                 \<or> n = 8239 \<or> n = 8287 \<or> n = 12288)"

definition strip :: "pystr \<Rightarrow> pystr" where
  "strip s = rev (dropWhile is_space (rev (dropWhile is_space s)))"

text \<open>
  \<^verbatim>\<open>s.split("  ", 1)\<close>: \<open>find_sep\<close> cuts at the first two consecutive spaces; the split
  has two parts when there is such a place and one part otherwise.
\<close>

fun find_sep :: "pystr \<Rightarrow> (pystr \<times> pystr) option" where
  "find_sep [] = None"
| "find_sep [a] = None"
| "find_sep (a # b # cs) =
     (if a = 32 \<and> b = 32 then Some ([], cs)
      else (case find_sep (b # cs) of
              None \<Rightarrow> None
            | Some (h, t) \<Rightarrow> Some (a # h, t)))"

definition split_two_spaces :: "pystr \<Rightarrow> pystr list" where
  "split_two_spaces s = (case find_sep s of None \<Rightarrow> [s] | Some (h, t) \<Rightarrow> [h, t])"

text \<open>
  The lines of a text with their terminator, where \<^verbatim>\<open>\r\n\<close> and \<^verbatim>\<open>\r\<close> are read as
  \<^verbatim>\<open>\n\<close> (universal newlines).
\<close>

fun text_lines :: "pystr \<Rightarrow> pystr \<Rightarrow> pystr list" where
  "text_lines cur [] = (if cur = [] then [] else [cur])"
| "text_lines cur [c] =
     (if c = 10 \<or> c = 13 then [cur @ [10]] else [cur @ [c]])"
| "text_lines cur (c # c' # cs) =
     (if c = 13 \<and> c' = 10 then (cur @ [10]) # text_lines [] cs
      else if c = 10 \<or> c = 13 then (cur @ [10]) # text_lines [] (c' # cs)
      else text_lines (cur @ [c]) (c' # cs))"

text \<open>
  Iterating a file opened in text mode reads and decodes it chunk by chunk.  When a
  later chunk does not decode, the lines that end in the text decoded before it have
  been delivered already; a last line without its terminator, or with a lone
  \<^verbatim>\<open>\r\<close> that may still be followed by \<^verbatim>\<open>\n\<close>, has not.
\<close>

definition lines_before_error :: "pystr \<Rightarrow> pystr list" where
  "lines_before_error t =
     (if t = [] then []
      else if last t = 10 then text_lines [] t
      else butlast (text_lines [] t))"

text \<open>\<^verbatim>\<open>subprocess\<close> in text mode: \<^verbatim>\<open>data.replace("\r\n", "\n").replace("\r", "\n")\<close>.\<close>

fun translate_newlines :: "pystr \<Rightarrow> pystr" where
  "translate_newlines [] = []"
| "translate_newlines [c] = (if c = 13 then [10] else [c])"
| "translate_newlines (c # c' # cs) =
     (if c = 13 \<and> c' = 10 then 10 # translate_newlines cs
      else if c = 13 then 10 # translate_newlines (c' # cs)
      else c # translate_newlines (c' # cs))"

text \<open>Decimal numerals, as \<^verbatim>\<open>str\<close> of a non-negative integer gives them.\<close>

fun show_nat :: "nat \<Rightarrow> pystr" where
  "show_nat n = (if n < 10 then [48 + n] else show_nat (n div 10) @ [48 + n mod 10])"

definition zero_pad :: "nat \<Rightarrow> nat \<Rightarrow> pystr" where
  "zero_pad w n = replicate (w - length (show_nat n)) 48 @ show_nat n"

record datetime =
  year :: nat
  month :: nat
  day :: nat
  hour :: nat
  minute :: nat
  second :: nat

text \<open>
  \<^verbatim>\<open>strftime("%Y%m%d_%H%M%S")\<close>: the C library prints the year without padding and
  the other fields with two digits.
\<close>

definition strftime :: "datetime \<Rightarrow> pystr" where
  "strftime t = show_nat (year t) @ zero_pad 2 (month t) @ zero_pad 2 (day t) @ U ''_''
                @ zero_pad 2 (hour t) @ zero_pad 2 (minute t) @ zero_pad 2 (second t)"

subsection \<open>Exceptions\<close>

datatype error =
    PackageError pystr
  | DependencyError pystr
  | ValidationError pystr
  | ValueError pystr
  | KeyError pystr
  | TypeError pystr
  | AttributeError pystr
  | OSError pystr
  | ReadError pystr
  | UnicodeDecodeError pystr
  | JSONDecodeError pystr

text \<open>\<^verbatim>\<open>str(e)\<close>: the message; a \<^verbatim>\<open>KeyError\<close> prints the repr of its key.\<close>

fun err_str :: "error \<Rightarrow> pystr" where
  "err_str (PackageError m) = m"
| "err_str (DependencyError m) = m"
| "err_str (ValidationError m) = m"
| "err_str (ValueError m) = m"
| "err_str (KeyError k) = [39] @ k @ [39]"
| "err_str (TypeError m) = m"
| "err_str (AttributeError m) = m"
| "err_str (OSError m) = m"
| "err_str (ReadError m) = m"
| "err_str (UnicodeDecodeError m) = m"
| "err_str (JSONDecodeError m) = m"

text \<open>The classes of the error taxonomy: \<^verbatim>\<open>PackageError\<close> and its two subclasses.\<close>

fun is_package_error :: "error \<Rightarrow> bool" where
  "is_package_error (PackageError m) = True"
| "is_package_error (DependencyError m) = True"
| "is_package_error (ValidationError m) = True"
| "is_package_error e = False"

fun is_validation_error :: "error \<Rightarrow> bool" where
  "is_validation_error (ValidationError m) = True"
| "is_validation_error e = False"

subsection \<open>Paths and directory trees\<close>

text \<open>
  A pathlib path is kept as whether it is absolute and the list of its components;
  \<open>components\<close> reads them off a string as pathlib does (empty and \<^verbatim>\<open>.\<close> components
  vanish, \<^verbatim>\<open>..\<close> stays).
\<close>

fun split_slash :: "pystr \<Rightarrow> pystr \<Rightarrow> pystr list" where
  "split_slash cur [] = [cur]"
| "split_slash cur (c # cs) =
     (if c = 47 then cur # split_slash [] cs else split_slash (cur @ [c]) cs)"

definition components :: "pystr \<Rightarrow> pystr list" where
  "components s = filter (\<lambda>c. c \<noteq> [] \<and> c \<noteq> [46]) (split_slash [] s)"

definition is_absolute :: "pystr \<Rightarrow> bool" where
  "is_absolute s = (case s of [] \<Rightarrow> False | c # cs \<Rightarrow> c = 47)"

type_synonym pypath = "bool \<times> pystr list"

definition Path :: "pystr \<Rightarrow> pypath" where
  "Path s = (is_absolute s, components s)"

text \<open>\<^verbatim>\<open>p / s\<close>: an absolute right operand replaces the left one.\<close>

definition path_join :: "pypath \<Rightarrow> pystr \<Rightarrow> pypath" where
  "path_join p s = (if is_absolute s then Path s else (fst p, snd p @ components s))"

text \<open>\<^verbatim>\<open>str(p)\<close>, \<^verbatim>\<open>p.name\<close> and \<^verbatim>\<open>p.parent\<close>; the parent of the root, or of \<^verbatim>\<open>.\<close>, is itself.\<close>

fun join_slash :: "pystr list \<Rightarrow> pystr" where
  "join_slash [] = []"
| "join_slash [c] = c"
| "join_slash (c # c' # cs) = c @ [47] @ join_slash (c' # cs)"

definition path_str :: "pypath \<Rightarrow> pystr" where
  "path_str p = (if fst p then [47] @ join_slash (snd p)
                 else if snd p = [] then [46] else join_slash (snd p))"

definition path_name :: "pypath \<Rightarrow> pystr" where
  "path_name p = (case snd p of [] \<Rightarrow> [] | c # cs \<Rightarrow> last (c # cs))"

definition path_parent :: "pypath \<Rightarrow> pypath" where
  "path_parent p = (fst p, butlast (snd p))"

text \<open>A directory is the list of its entries, in the order a listing gives them.\<close>

datatype node = File string | Dir "(pystr \<times> node) list"

fun lookup :: "node \<Rightarrow> pystr list \<Rightarrow> node option" where
  "lookup n [] = Some n"
| "lookup (File c) (x # xs) = None"
| "lookup (Dir es) (x # xs) = (case map_of es x of None \<Rightarrow> None | Some n \<Rightarrow> lookup n xs)"

text \<open>
  \<^verbatim>\<open>rglob("*")\<close> filtered by \<^verbatim>\<open>is_file()\<close>, with the paths relative to the directory:
  the entries of a directory are all yielded before any of its subdirectories is
  entered, and the subdirectories are entered in the order of the listing.
\<close>

fun direct_files :: "(pystr \<times> node) list \<Rightarrow> (pystr list \<times> string) list" where
  "direct_files [] = []"
| "direct_files ((name, File c) # es) = ([name], c) # direct_files es"
| "direct_files ((name, Dir ds) # es) = direct_files es"

fun subdir_files :: "(pystr \<times> node) list \<Rightarrow> (pystr list \<times> string) list" where
  "subdir_files [] = []"
| "subdir_files ((name, File c) # es) = subdir_files es"
| "subdir_files ((name, Dir ds) # es) =
     map (\<lambda>(p, c). (name # p, c)) (direct_files ds @ subdir_files ds) @ subdir_files es"

definition rglob_files :: "node \<Rightarrow> (pystr list \<times> string) list" where
  "rglob_files n = (case n of File c \<Rightarrow> [] | Dir es \<Rightarrow> direct_files es @ subdir_files es)"

text \<open>
  \<^verbatim>\<open>dst.parent.mkdir(parents=True, exist_ok=True)\<close> followed by
  \<^verbatim>\<open>shutil.copy2(src, dst)\<close>: missing directories are created, a regular file on the
  way is an error, an existing regular file is overwritten, and when \<open>dst\<close> is a
  directory the file is copied into it under its own name.
\<close>

fun put_file :: "(pystr \<times> node) list \<Rightarrow> pystr list \<Rightarrow> string \<Rightarrow> error + (pystr \<times> node) list" where
  "put_file es [] c = Inl (OSError (U ''Is a directory''))"
| "put_file es [name] c =
     (case map_of es name of
        Some (Dir ds) \<Rightarrow>
          (case map_of ds name of
             Some (Dir ds') \<Rightarrow> Inl (OSError (U ''Is a directory''))
           | _ \<Rightarrow> Inr (AList.update name (Dir (AList.update name (File c) ds)) es))
      | _ \<Rightarrow> Inr (AList.update name (File c) es))"
| "put_file es (d # x # xs) c =
     (case map_of es d of
        None \<Rightarrow>
          (case put_file [] (x # xs) c of
             Inl e \<Rightarrow> Inl e
           | Inr sub \<Rightarrow> Inr (AList.update d (Dir sub) es))
      | Some (File c') \<Rightarrow> Inl (OSError (U ''Not a directory''))
      | Some (Dir ds) \<Rightarrow>
          (case put_file ds (x # xs) c of
             Inl e \<Rightarrow> Inl e
           | Inr ds' \<Rightarrow> Inr (AList.update d (Dir ds') es)))"

subsection \<open>Decoded JSON\<close>

datatype jvalue =
    JNull
  | JBool bool
  | JNum int
  | JStr pystr
  | JArr "jvalue list"
  | JObj "(pystr \<times> jvalue) list"

text \<open>\<^verbatim>\<open>key in v\<close> for a string key: dictionary key, list element or substring.\<close>

fun is_substring :: "pystr \<Rightarrow> pystr \<Rightarrow> bool" where
  "is_substring k [] = (k = [])"
| "is_substring k (c # cs) = (take (length k) (c # cs) = k \<or> is_substring k cs)"

fun py_contains :: "jvalue \<Rightarrow> pystr \<Rightarrow> error + bool" where
  "py_contains (JObj kvs) k = Inr (k \<in> set (map fst kvs))"
| "py_contains (JArr vs) k = Inr (JStr k \<in> set vs)"
| "py_contains (JStr s) k = Inr (is_substring k s)"
| "py_contains v k = Inl (TypeError (U ''argument is not iterable''))"

text \<open>\<^verbatim>\<open>v[key]\<close> for a string key.\<close>

fun py_getitem :: "jvalue \<Rightarrow> pystr \<Rightarrow> error + jvalue" where
  "py_getitem (JObj kvs) k = (case map_of kvs k of None \<Rightarrow> Inl (KeyError k) | Some v \<Rightarrow> Inr v)"
| "py_getitem (JArr vs) k = Inl (TypeError (U ''list indices must be integers or slices, not str''))"
| "py_getitem (JStr s) k = Inl (TypeError (U ''string indices must be integers''))"
| "py_getitem v k = Inl (TypeError (U ''object is not subscriptable''))"

text \<open>\<^verbatim>\<open>v.get(key, default)\<close>: only a dictionary has the method.\<close>

fun py_get :: "jvalue \<Rightarrow> pystr \<Rightarrow> jvalue \<Rightarrow> error + jvalue" where
  "py_get (JObj kvs) k dflt = (case map_of kvs k of None \<Rightarrow> Inr dflt | Some v \<Rightarrow> Inr v)"
| "py_get v k dflt = Inl (AttributeError (U ''object has no attribute get''))"

text \<open>\<^verbatim>\<open>for x in v\<close>: the elements of a list, the keys of a dictionary, the characters of a string.\<close>

fun py_iter :: "jvalue \<Rightarrow> error + jvalue list" where
  "py_iter (JArr vs) = Inr vs"
| "py_iter (JObj kvs) = Inr (map (\<lambda>kv. JStr (fst kv)) kvs)"
| "py_iter (JStr s) = Inr (map (\<lambda>c. JStr [c]) s)"
| "py_iter v = Inl (TypeError (U ''object is not iterable''))"

subsection \<open>Binary floating point\<close>

text \<open>
  \<^verbatim>\<open>int((i / total) * 100)\<close> is computed in IEEE 754 binary64.  A double is kept as
  an exact fraction; \<open>to_double p q\<close> rounds \<open>p / q\<close> to the nearest double, ties to
  even (exponents stay in the normal range for every batch a list can hold).
\<close>

fun bit_length :: "nat \<Rightarrow> nat" where
  "bit_length n = (if n = 0 then 0 else Suc (bit_length (n div 2)))"

definition round_half_even :: "nat \<Rightarrow> nat \<Rightarrow> nat" where
  "round_half_even p q =
     (let d = p div q; r = p mod q
      in if 2 * r < q then d else if q < 2 * r then d + 1 else if even d then d else d + 1)"

definition floor_log2 :: "nat \<Rightarrow> nat \<Rightarrow> int" where
  "floor_log2 p q =
     (let d = int (bit_length p) - int (bit_length q)
      in if (if 0 \<le> d then q * 2 ^ nat d \<le> p else q \<le> p * 2 ^ nat (- d)) then d else d - 1)"

definition to_double :: "nat \<Rightarrow> nat \<Rightarrow> nat \<times> nat" where
  "to_double p q =
     (if p = 0 then (0, 1)
      else let e = floor_log2 p q - 52
           in if 0 \<le> e then (round_half_even p (q * 2 ^ nat e) * 2 ^ nat e, 1)
              else (round_half_even (p * 2 ^ nat (- e)) q, 2 ^ nat (- e)))"

definition batch_percent :: "nat \<Rightarrow> nat \<Rightarrow> int" where
  "batch_percent i n =
     (case to_double i n of (a, b) \<Rightarrow>
        (case to_double (a * 100) b of (c, d) \<Rightarrow> int (c div d)))"

subsection \<open>The world outside the process, and the external collaborators\<close>

text \<open>
  \<open>sysroot\<close> holds the entries of the target root \<^verbatim>\<open>/\<close>, \<open>backups\<close> the archives in
  the backup directory by file name (an archive is the list of its members),
  \<open>tmpdirs\<close> the temporary directories by number, \<open>locked\<close> the temporary directories
  whose removal fails, \<open>pkgfiles\<close> the readable package archives by path, each with
  the tree it unpacks to, and \<open>clock\<close> the time.
\<close>

record world =
  sysroot :: "(pystr \<times> node) list"
  backups :: "(pystr \<times> (pystr list \<times> node) list) list"
  tmpdirs :: "(nat \<times> (pystr \<times> node) list) list"
  locked :: "nat list"
  pkgfiles :: "(pystr \<times> (pystr \<times> node) list) list"
  clock :: datetime

text \<open>
  \<^verbatim>\<open>subprocess.run\<close> before decoding and before \<^verbatim>\<open>check\<close>: either it raises (the
  program cannot be started), or the process exits with a status, its raw standard
  output and its raw standard error; both leave a world.
\<close>

datatype proc_outcome = Raised error world | Exited int string string world

text \<open>
  What the program calls and does not define: the digest; the JSON decoder (of the
  bytes of the manifest); reading a text file (the text decoded before the first
  chunk that does not decode, and the error of that chunk); the strict decoder of a
  captured output; \<^verbatim>\<open>str()\<close> of a JSON value that is not a string; the process
  environment; starting a process (given the script's path, its content, the
  environment and the world); the names \<^verbatim>\<open>mkdtemp\<close> gives; what is found at a
  checksum path that is absolute or has a \<^verbatim>\<open>..\<close> component (given the workspace and
  the path); and writing a backup archive whose name has a slash (given the path
  and the members).
\<close>

record ext =
  md5_hexdigest :: "string \<Rightarrow> pystr"
  json_load :: "string \<Rightarrow> error + jvalue"
  read_text :: "string \<Rightarrow> pystr \<times> error option"
  decode_output :: "string \<Rightarrow> error + pystr"
  py_repr :: "jvalue \<Rightarrow> pystr"
  environ :: "(pystr \<times> pystr) list"
  run_process :: "pystr \<Rightarrow> string \<Rightarrow> (pystr \<times> pystr) list \<Rightarrow> world \<Rightarrow> proc_outcome"
  temp_name :: "nat \<Rightarrow> pystr"
  stat_outside :: "world \<Rightarrow> pystr \<Rightarrow> pystr \<Rightarrow> node option"
  write_outside :: "pystr \<Rightarrow> (pystr list \<times> node) list \<Rightarrow> world \<Rightarrow> error + world"

definition py_str :: "ext \<Rightarrow> jvalue \<Rightarrow> pystr" where
  "py_str x v = (case v of JStr s \<Rightarrow> s | _ \<Rightarrow> py_repr x v)"

subsection \<open>Signals and the state of a run\<close>

datatype event =
    ProgressUpdated int
  | LogMessage pystr
  | InstallationCompleted
  | InstallationFailed pystr

text \<open>\<open>emitted\<close>: the signals in the order of emission; \<open>errlog\<close>: the lines of \<^verbatim>\<open>logging.error\<close>.\<close>

record inst =
  wld :: world
  emitted :: "event list"
  errlog :: "pystr list"

definition emit :: "event \<Rightarrow> inst \<Rightarrow> inst" where
  "emit ev s = s\<lparr>emitted := emitted s @ [ev]\<rparr>"

definition logging_error :: "pystr \<Rightarrow> inst \<Rightarrow> inst" where
  "logging_error m s = s\<lparr>errlog := errlog s @ [m]\<rparr>"

subsection \<open>Package\<close>

record package =
  pkg_path :: pystr
  temp_dir :: "nat option"
  metadata :: jvalue
  md5sums :: "(pystr \<times> pystr) list"

definition Package :: "pystr \<Rightarrow> package" where
  "Package p = \<lparr>pkg_path = p, temp_dir = None, metadata = JObj [], md5sums = []\<rparr>"

text \<open>\<^verbatim>\<open>tempfile.mkdtemp\<close>: a new, empty directory under a name not in use.\<close>

definition mkdtemp :: "world \<Rightarrow> nat \<times> world" where
  "mkdtemp w = (let d = Suc (fold max (map fst (tmpdirs w)) 0)
                in (d, w\<lparr>tmpdirs := tmpdirs w @ [(d, [])]\<rparr>))"

text \<open>
  A path below a temporary directory: the directory's number and the components
  below it; \<open>ws_full\<close> is the pathlib path it stands for.
\<close>

definition ws_lookup :: "world \<Rightarrow> nat \<times> pystr list \<Rightarrow> node option" where
  "ws_lookup w p = (case map_of (tmpdirs w) (fst p) of
                      None \<Rightarrow> None
                    | Some es \<Rightarrow> lookup (Dir es) (snd p))"

definition ws_full :: "ext \<Rightarrow> nat \<times> pystr list \<Rightarrow> pypath" where
  "ws_full x p = (fst (Path (temp_name x (fst p))), snd (Path (temp_name x (fst p))) @ snd p)"

text \<open>\<^verbatim>\<open>package.temp_dir / a / b\<close>: a \<^verbatim>\<open>TypeError\<close> while \<open>temp_dir\<close> is \<^verbatim>\<open>None\<close>.\<close>

definition temp_path :: "package \<Rightarrow> pystr list \<Rightarrow> error + (nat \<times> pystr list)" where
  "temp_path pkg cs = (case temp_dir pkg of
                         None \<Rightarrow> Inl (TypeError (U ''unsupported operand type(s) for /''))
                       | Some d \<Rightarrow> Inr (d, cs))"

text \<open>
  The loop over the lines of \<^verbatim>\<open>md5sums\<close>: unpacking the split into two names raises
  \<^verbatim>\<open>ValueError\<close> when it has one part; the entries of the lines before stay.
\<close>

fun load_md5sums :: "pystr list \<Rightarrow> (pystr \<times> pystr) list \<Rightarrow> error option \<times> (pystr \<times> pystr) list" where
  "load_md5sums [] m = (None, m)"
| "load_md5sums (l # ls) m =
     (case split_two_spaces (strip l) of
        [hashsum, path] \<Rightarrow> load_md5sums ls (AList.update path hashsum m)
      | _ \<Rightarrow> (Some (ValueError (U ''not enough values to unpack (expected 2, got 1)'')), m))"

text \<open>
  Reading \<^verbatim>\<open>md5sums\<close>: the lines decoded before a chunk that does not decode are
  processed first, so a malformed line among them raises before the decoder does.
\<close>

definition read_md5sums :: "ext \<Rightarrow> string \<Rightarrow> (pystr \<times> pystr) list \<Rightarrow> error option \<times> (pystr \<times> pystr) list" where
  "read_md5sums x c m =
     (case read_text x c of
        (t, None) \<Rightarrow> load_md5sums (text_lines [] t) m
      | (t, Some e) \<Rightarrow>
          (case load_md5sums (lines_before_error t) m of
             (Some e', m') \<Rightarrow> (Some e', m')
           | (None, m') \<Rightarrow> (Some e, m')))"

definition extract_pkg :: "ext \<Rightarrow> package \<Rightarrow> inst \<Rightarrow> (error + nat) \<times> package \<times> inst" where
  "extract_pkg x pkg s =
     (case mkdtemp (wld s) of (d, w1) \<Rightarrow>
        let pkg1 = pkg\<lparr>temp_dir := Some d\<rparr> in
        (case map_of (pkgfiles w1) (pkg_path pkg) of
           None \<Rightarrow> (Inl (ReadError (U ''cannot open archive'')), pkg1, s\<lparr>wld := w1\<rparr>)
         | Some tree \<Rightarrow>
             let w2 = w1\<lparr>tmpdirs := AList.update d tree (tmpdirs w1)\<rparr>;
                 s2 = s\<lparr>wld := w2\<rparr>
             in (case ws_lookup w2 (d, [U ''metadata.json'']) of
                   None \<Rightarrow> (Inl (ValidationError (U ''metadata.json not found in package'')), pkg1, s2)
                 | Some (Dir es) \<Rightarrow> (Inl (OSError (U ''Is a directory'')), pkg1, s2)
                 | Some (File c) \<Rightarrow>
                     (case json_load x c of
                        Inl e \<Rightarrow> (Inl e, pkg1, s2)
                      | Inr v \<Rightarrow>
                          let pkg2 = pkg1\<lparr>metadata := v\<rparr> in
                          (case ws_lookup w2 (d, [U ''md5sums'']) of
                             None \<Rightarrow> (Inr d, pkg2, s2)
                           | Some (Dir es) \<Rightarrow> (Inl (OSError (U ''Is a directory'')), pkg2, s2)
                           | Some (File c') \<Rightarrow>
                               (case read_md5sums x c' (md5sums pkg2) of
                                  (Some e, m) \<Rightarrow> (Inl e, pkg2\<lparr>md5sums := m\<rparr>, s2)
                                | (None, m) \<Rightarrow> (Inr d, pkg2\<lparr>md5sums := m\<rparr>, s2)))))))"

text \<open>
  \<^verbatim>\<open>cleanup\<close>: \<^verbatim>\<open>shutil.rmtree\<close> raises when the tree cannot be removed; what it had
  removed by then is not modelled, the directory stays.
\<close>

definition cleanup :: "package \<Rightarrow> inst \<Rightarrow> error option \<times> inst" where
  "cleanup pkg s =
     (case temp_dir pkg of
        None \<Rightarrow> (None, s)
      | Some d \<Rightarrow>
          if d \<in> set (map fst (tmpdirs (wld s)))
          then (if d \<in> set (locked (wld s)) then (Some (OSError (U ''Operation not permitted'')), s)
                else (None, s\<lparr>wld := (wld s)\<lparr>tmpdirs := AList.delete d (tmpdirs (wld s))\<rparr>\<rparr>))
          else (None, s))"

text \<open>\<^verbatim>\<open>__str__\<close>: \<^verbatim>\<open>metadata.get\<close> exists only when the decoded manifest is a dictionary.\<close>

definition pkg_str :: "ext \<Rightarrow> package \<Rightarrow> error + pystr" where
  "pkg_str x pkg =
     (case py_get (metadata pkg) (U ''name'') (JStr (U ''Unknown'')) of
        Inl e \<Rightarrow> Inl e
      | Inr n \<Rightarrow>
          (case py_get (metadata pkg) (U ''version'') (JStr (U ''Unknown'')) of
             Inl e \<Rightarrow> Inl e
           | Inr v \<Rightarrow> Inr (py_str x n @ U '' '' @ py_str x v)))"

subsection \<open>Installer\<close>

definition backup_dir :: pypath where
  "backup_dir = Path (U ''/var/lib/nuros/backups'')"

text \<open>
  \<^verbatim>\<open>package.temp_dir / file_path\<close>: a relative \<open>file_path\<close> without \<^verbatim>\<open>..\<close> lies in the
  workspace; any other is left to \<open>stat_outside\<close>.
\<close>

definition resolve :: "ext \<Rightarrow> world \<Rightarrow> package \<Rightarrow> pystr \<Rightarrow> error + node option" where
  "resolve x w pkg file_path =
     (case temp_path pkg (components file_path) of
        Inl e \<Rightarrow> Inl e
      | Inr p \<Rightarrow>
          Inr (if is_absolute file_path \<or> U ''..'' \<in> set (components file_path)
               then stat_outside x w (temp_name x (fst p)) file_path
               else ws_lookup w p))"

text \<open>The loop of \<^verbatim>\<open>verify_checksums\<close> over the items of the table: the first raise ends it.\<close>

fun check_entries :: "ext \<Rightarrow> world \<Rightarrow> package \<Rightarrow> (pystr \<times> pystr) list \<Rightarrow> error option" where
  "check_entries x w pkg [] = None"
| "check_entries x w pkg ((file_path, expected_hash) # rest) =
     (case resolve x w pkg file_path of
        Inl e \<Rightarrow> Some e
      | Inr None \<Rightarrow> Some (ValidationError (U ''File not found: '' @ file_path))
      | Inr (Some (Dir es)) \<Rightarrow> Some (OSError (U ''Is a directory''))
      | Inr (Some (File c)) \<Rightarrow>
          if md5_hexdigest x c \<noteq> expected_hash
          then Some (ValidationError (U ''Checksum mismatch for '' @ file_path))
          else check_entries x w pkg rest)"

definition verify_checksums :: "ext \<Rightarrow> package \<Rightarrow> inst \<Rightarrow> (error + bool) \<times> inst" where
  "verify_checksums x pkg s =
     (if md5sums pkg = [] then (Inr True, s)
      else let s1 = emit (LogMessage (U ''Verifying package checksums...'')) s
           in (case check_entries x (wld s1) pkg (md5sums pkg) of
                 Some e \<Rightarrow> (Inl e, s1)
               | None \<Rightarrow> (Inr True, s1)))"

fun report_dependencies :: "ext \<Rightarrow> jvalue list \<Rightarrow> inst \<Rightarrow> (error + bool) \<times> inst" where
  "report_dependencies x [] s = (Inr True, s)"
| "report_dependencies x (dep # deps) s =
     (case py_getitem dep (U ''name'') of
        Inl e \<Rightarrow> (Inl e, s)
      | Inr name \<Rightarrow>
          (case py_getitem dep (U ''version'') of
             Inl e \<Rightarrow> (Inl e, s)
           | Inr version \<Rightarrow>
               (case py_get dep (U ''condition'') (JStr (U ''>='')) of
                  Inl e \<Rightarrow> (Inl e, s)
                | Inr condition \<Rightarrow>
                    report_dependencies x deps
                      (emit (LogMessage (U ''Required: '' @ py_str x name @ U '' '' @ py_str x condition
                                         @ U '' '' @ py_str x version)) s))))"

definition verify_dependencies :: "ext \<Rightarrow> package \<Rightarrow> inst \<Rightarrow> (error + bool) \<times> inst" where
  "verify_dependencies x pkg s =
     (case py_contains (metadata pkg) (U ''dependencies'') of
        Inl e \<Rightarrow> (Inl e, s)
      | Inr present \<Rightarrow>
          if \<not> present then (Inr True, s)
          else let s1 = emit (LogMessage (U ''Checking dependencies...'')) s
               in (case py_getitem (metadata pkg) (U ''dependencies'') of
                     Inl e \<Rightarrow> (Inl e, s1)
                   | Inr v \<Rightarrow>
                       (case py_iter v of
                          Inl e \<Rightarrow> (Inl e, s1)
                        | Inr deps \<Rightarrow> report_dependencies x deps s1)))"

text \<open>
  The loop of \<^verbatim>\<open>create_backup\<close>: for each regular file of the payload, in the order
  of \<^verbatim>\<open>rglob\<close>, \<^verbatim>\<open>tar.add(dst, ...)\<close> when \<^verbatim>\<open>dst.exists()\<close>; adding a directory adds the
  whole tree below it.
\<close>

fun backup_members :: "(pystr \<times> node) list \<Rightarrow> (pystr list \<times> string) list \<Rightarrow> (pystr list \<times> node) list" where
  "backup_members root [] = []"
| "backup_members root ((rel, c) # fs) =
     (case lookup (Dir root) rel of
        None \<Rightarrow> backup_members root fs
      | Some n \<Rightarrow> (rel, n) # backup_members root fs)"

text \<open>
  What the body of the \<^verbatim>\<open>with\<close> block adds to the archive, and the error it raises
  (the \<^verbatim>\<open>TypeError\<close> of \<^verbatim>\<open>package.temp_dir / "data"\<close> while \<open>temp_dir\<close> is \<^verbatim>\<open>None\<close>).
\<close>

definition backup_body :: "package \<Rightarrow> world \<Rightarrow> error option \<times> (pystr list \<times> node) list" where
  "backup_body pkg w =
     (case temp_path pkg [U ''data''] of
        Inl e \<Rightarrow> (Some e, [])
      | Inr data_dir \<Rightarrow>
          (None, case ws_lookup w data_dir of
                   None \<Rightarrow> []
                 | Some n \<Rightarrow> backup_members (sysroot w) (rglob_files n)))"

text \<open>
  Opening the archive for writing creates it, or empties the one of that name; it
  is closed with what was added even when the body raises.  A name with a slash is
  not a file of the backup directory.
\<close>

definition create_backup :: "ext \<Rightarrow> package \<Rightarrow> inst \<Rightarrow> (error + unit) \<times> inst" where
  "create_backup x pkg s =
     (let timestamp = strftime (clock (wld s)) in
      case py_getitem (metadata pkg) (U ''name'') of
        Inl e \<Rightarrow> (Inl e, s)
      | Inr name \<Rightarrow>
          let backup_name = py_str x name @ U ''_'' @ timestamp @ U ''.tar.xz'';
              s1 = emit (LogMessage (U ''Creating backup...'')) s;
              body = backup_body pkg (wld s1);
              written =
                (if 47 \<in> set backup_name
                 then write_outside x (path_str (path_join backup_dir backup_name)) (snd body) (wld s1)
                 else Inr ((wld s1)\<lparr>backups := AList.update backup_name (snd body)
                                                      (backups (wld s1))\<rparr>))
          in (case written of
                Inl e \<Rightarrow> (Inl e, s1)
              | Inr w' \<Rightarrow>
                  (case fst body of
                     Some e \<Rightarrow> (Inl e, s1\<lparr>wld := w'\<rparr>)
                   | None \<Rightarrow> (Inr (), s1\<lparr>wld := w'\<rparr>))))"

text \<open>
  \<^verbatim>\<open>run_script\<close> is always called without \<open>env\<close>, so the environment starts empty,
  takes \<^verbatim>\<open>os.environ\<close> and then \<^verbatim>\<open>PACKAGE_ROOT\<close>.
\<close>

definition script_env :: "ext \<Rightarrow> nat \<times> pystr list \<Rightarrow> (pystr \<times> pystr) list" where
  "script_env x script_path =
     AList.update (U ''PACKAGE_ROOT'') (path_str (path_parent (path_parent (ws_full x script_path))))
       (environ x)"

text \<open>
  In text mode \<^verbatim>\<open>subprocess.run\<close> decodes the captured output, standard output
  first, and a failure to decode is raised whatever the exit status.  Only
  \<^verbatim>\<open>CalledProcessError\<close> is turned into \<^verbatim>\<open>PackageError\<close>; a directory in the script's
  place cannot be executed.
\<close>

definition run_script :: "ext \<Rightarrow> nat \<times> pystr list \<Rightarrow> inst \<Rightarrow> (error + bool) \<times> inst" where
  "run_script x script_path s =
     (case ws_lookup (wld s) script_path of
        None \<Rightarrow> (Inr True, s)
      | Some n \<Rightarrow>
          let script_name = path_name (ws_full x script_path);
              s1 = emit (LogMessage (U ''Running '' @ script_name @ U ''...'')) s
          in (case n of
                Dir es \<Rightarrow> (Inl (OSError (U ''Permission denied'')), s1)
              | File c \<Rightarrow>
                  (case run_process x (path_str (ws_full x script_path)) c (script_env x script_path)
                          (wld s1) of
                     Raised e w' \<Rightarrow> (Inl e, s1\<lparr>wld := w'\<rparr>)
                   | Exited returncode out err w' \<Rightarrow>
                       (case decode_output x out of
                          Inl e \<Rightarrow> (Inl e, s1\<lparr>wld := w'\<rparr>)
                        | Inr stdout \<Rightarrow>
                            (case decode_output x err of
                               Inl e \<Rightarrow> (Inl e, s1\<lparr>wld := w'\<rparr>)
                             | Inr stderr \<Rightarrow>
                                 if returncode = 0 then (Inr True, s1\<lparr>wld := w'\<rparr>)
                                 else (Inl (PackageError (script_name @ U '' failed: ''
                                                          @ translate_newlines stderr)),
                                       s1\<lparr>wld := w'\<rparr>))))))"

fun copy_loop :: "(pystr list \<times> string) list \<Rightarrow> inst \<Rightarrow> (error + unit) \<times> inst" where
  "copy_loop [] s = (Inr (), s)"
| "copy_loop ((rel, c) # fs) s =
     (case put_file (sysroot (wld s)) rel c of
        Inl e \<Rightarrow> (Inl e, s)
      | Inr root' \<Rightarrow> copy_loop fs (s\<lparr>wld := (wld s)\<lparr>sysroot := root'\<rparr>\<rparr>))"

text \<open>\<^verbatim>\<open>copy_files(source_dir, self.system_root)\<close>: the target is the root.\<close>

definition copy_files :: "nat \<times> pystr list \<Rightarrow> inst \<Rightarrow> (error + unit) \<times> inst" where
  "copy_files source_dir s =
     (case ws_lookup (wld s) source_dir of
        None \<Rightarrow> (Inr (), s)
      | Some n \<Rightarrow> copy_loop (rglob_files n) (emit (LogMessage (U ''Copying files...'')) s))"

definition register_package :: "package \<Rightarrow> inst \<Rightarrow> inst" where
  "register_package pkg s = s"

text \<open>Sequencing inside the \<^verbatim>\<open>try\<close> block: a raise skips what follows.\<close>

definition and_then :: "(error + 'a) \<times> inst \<Rightarrow> (inst \<Rightarrow> (error + 'b) \<times> inst) \<Rightarrow> (error + 'b) \<times> inst" where
  "and_then m f = (case m of (Inl e, s) \<Rightarrow> (Inl e, s) | (Inr v, s) \<Rightarrow> f s)"

definition at_path :: "package \<Rightarrow> pystr list \<Rightarrow> (nat \<times> pystr list \<Rightarrow> inst \<Rightarrow> (error + 'a) \<times> inst)
                         \<Rightarrow> inst \<Rightarrow> (error + 'a) \<times> inst" where
  "at_path pkg cs f s = (case temp_path pkg cs of Inl e \<Rightarrow> (Inl e, s) | Inr p \<Rightarrow> f p s)"

text \<open>The steps of the \<^verbatim>\<open>try\<close> block after the extraction.\<close>

definition install_steps :: "ext \<Rightarrow> package \<Rightarrow> inst \<Rightarrow> (error + bool) \<times> inst" where
  "install_steps x pkg s =
     and_then (verify_checksums x pkg (emit (ProgressUpdated 10) s)) (\<lambda>s.
     and_then (verify_dependencies x pkg (emit (ProgressUpdated 20) s)) (\<lambda>s.
     and_then (create_backup x pkg (emit (ProgressUpdated 30) s)) (\<lambda>s.
     and_then (at_path pkg [U ''scripts'', U ''preinstall''] (run_script x) (emit (ProgressUpdated 40) s)) (\<lambda>s.
     and_then (at_path pkg [U ''data''] copy_files (emit (ProgressUpdated 50) s)) (\<lambda>s.
     and_then (at_path pkg [U ''scripts'', U ''postinstall''] (run_script x) (emit (ProgressUpdated 70) s)) (\<lambda>s.
       let s' = emit (ProgressUpdated 90) (register_package pkg (emit (ProgressUpdated 80) s))
       in (case pkg_str x pkg of
             Inl e \<Rightarrow> (Inl e, s')
           | Inr name \<Rightarrow> (Inr True, emit (LogMessage (U ''Successfully installed '' @ name)) s'))))))))"

text \<open>
  The \<^verbatim>\<open>try\<close> block: the package as the block leaves it, and the outcome.  A package
  path is given by its \<^verbatim>\<open>str\<close>.
\<close>

definition install_try :: "ext \<Rightarrow> pystr \<Rightarrow> inst \<Rightarrow> package \<times> (error + bool) \<times> inst" where
  "install_try x package_path s =
     (case extract_pkg x (Package package_path)
             (emit (LogMessage (U ''Extracting '' @ path_name (Path package_path) @ U ''...'')) s) of
        (Inl e, pkg, s1) \<Rightarrow> (pkg, Inl e, s1)
      | (Inr d, pkg, s1) \<Rightarrow> (pkg, install_steps x pkg s1))"

text \<open>The \<^verbatim>\<open>except\<close> clause: the log line is formatted first, then the error raised again.\<close>

definition install_except :: "ext \<Rightarrow> package \<Rightarrow> error \<Rightarrow> inst \<Rightarrow> (error + bool) \<times> inst" where
  "install_except x pkg e s =
     (case pkg_str x pkg of
        Inl e' \<Rightarrow> (Inl e', s)
      | Inr name \<Rightarrow> (Inl e, emit (LogMessage (U ''Failed to install '' @ name @ U '': '' @ err_str e)) s))"

text \<open>The \<^verbatim>\<open>finally\<close> clause: an error of \<^verbatim>\<open>cleanup\<close> takes the place of the outcome.\<close>

definition install_finally :: "package \<Rightarrow> (error + bool) \<times> inst \<Rightarrow> (error + bool) \<times> inst" where
  "install_finally pkg rs =
     (case cleanup pkg (snd rs) of
        (Some e, s') \<Rightarrow> (Inl e, s')
      | (None, s') \<Rightarrow> (fst rs, s'))"

definition install_package :: "ext \<Rightarrow> pystr \<Rightarrow> inst \<Rightarrow> (error + bool) \<times> inst" where
  "install_package x package_path s =
     (case install_try x package_path s of
        (pkg, Inr ok, s1) \<Rightarrow> install_finally pkg (Inr ok, s1)
      | (pkg, Inl e, s1) \<Rightarrow> install_finally pkg (install_except x pkg e s1))"

subsection \<open>InstallerThread\<close>

text \<open>
  The loop of \<^verbatim>\<open>run\<close>, with \<open>n\<close> the total, \<open>i\<close> the index from 1 and \<open>success\<close> the
  counter.  Nothing outside the inner \<^verbatim>\<open>try\<close> can raise, so the outer handler is
  never entered.
\<close>

fun run_loop :: "ext \<Rightarrow> nat \<Rightarrow> nat \<Rightarrow> nat \<Rightarrow> pystr list \<Rightarrow> inst \<Rightarrow> nat \<times> inst" where
  "run_loop x n i success [] s = (success, s)"
| "run_loop x n i success (package_path # rest) s =
     (case install_package x package_path s of
        (Inr ok, s1) \<Rightarrow>
          run_loop x n (i + 1) (if ok then success + 1 else success) rest
            (emit (ProgressUpdated (batch_percent i n)) s1)
      | (Inl e, s1) \<Rightarrow>
          run_loop x n (i + 1) success rest
            (emit (ProgressUpdated (batch_percent i n))
               (logging_error (U ''Failed to install '' @ package_path @ U '': '' @ err_str e) s1)))"

definition run :: "ext \<Rightarrow> pystr list \<Rightarrow> inst \<Rightarrow> inst" where
  "run x packages s =
     (let n = length packages in
      case run_loop x n 1 0 packages s of
        (success, s1) \<Rightarrow>
          if success = n then emit InstallationCompleted s1
          else emit (InstallationFailed (U ''Failed to install '' @ show_nat (n - success)
                                         @ U '' package(s)'')) s1)"

section \<open>Observations and sample inputs\<close>

text \<open>The percentages delivered to the progress sink, in order.\<close>

fun progress_of :: "event list \<Rightarrow> int list" where
  "progress_of [] = []"
| "progress_of (ProgressUpdated p # evs) = p # progress_of evs"
| "progress_of (ev # evs) = progress_of evs"

definition progress :: "inst \<Rightarrow> int list" where
  "progress s = progress_of (emitted s)"

text \<open>The percentages \<^verbatim>\<open>install_package\<close> emits when every step succeeds.\<close>

definition full_progress :: "int list" where
  "full_progress = [10, 20, 30, 40, 50, 70, 80, 90]"

text \<open>The batch-completed and batch-failed signals, in order.\<close>

fun signals_of :: "event list \<Rightarrow> event list" where
  "signals_of [] = []"
| "signals_of (InstallationCompleted # evs) = InstallationCompleted # signals_of evs"
| "signals_of (InstallationFailed m # evs) = InstallationFailed m # signals_of evs"
| "signals_of (ev # evs) = signals_of evs"

definition signals :: "inst \<Rightarrow> event list" where
  "signals s = signals_of (emitted s)"

text \<open>
  The log lines that announce the start of a package's pipeline, in order, and the
  line that announces the package at a path.
\<close>

fun is_attempt :: "event \<Rightarrow> bool" where
  "is_attempt (LogMessage m) = (take 11 m = U ''Extracting '')"
| "is_attempt ev = False"

definition attempts :: "inst \<Rightarrow> event list" where
  "attempts s = filter is_attempt (emitted s)"

definition attempt_line :: "pystr \<Rightarrow> event" where
  "attempt_line p = LogMessage (U ''Extracting '' @ path_name (Path p) @ U ''...'')"

text \<open>The failure detail that the batch loop logs for the package at \<open>p\<close> and the error \<open>e\<close>.\<close>

definition failure_line :: "pystr \<Rightarrow> error \<Rightarrow> pystr" where
  "failure_line p e = U ''Failed to install '' @ p @ U '': '' @ err_str e"

text \<open>
  What each package of a batch does, told without the loop: \<open>batch_results\<close> pairs
  every package with the outcome of its pipeline, run in the state that the
  packages before it and their log lines and percentages have left (\<open>loop_next\<close>);
  \<open>failures\<close> keeps the packages whose pipeline raised, with the error.
\<close>

definition loop_next :: "nat \<Rightarrow> nat \<Rightarrow> pystr \<Rightarrow> (error + bool) \<times> inst \<Rightarrow> inst" where
  "loop_next n i p rs =
     emit (ProgressUpdated (batch_percent i n))
       (case fst rs of Inl e \<Rightarrow> logging_error (failure_line p e) (snd rs) | Inr ok \<Rightarrow> snd rs)"

fun batch_results :: "ext \<Rightarrow> nat \<Rightarrow> nat \<Rightarrow> pystr list \<Rightarrow> inst \<Rightarrow> (pystr \<times> (error + bool)) list" where
  "batch_results x n i [] s = []"
| "batch_results x n i (p # ps) s =
     (p, fst (install_package x p s))
       # batch_results x n (i + 1) ps (loop_next n i p (install_package x p s))"

fun failures :: "(pystr \<times> (error + bool)) list \<Rightarrow> (pystr \<times> error) list" where
  "failures [] = []"
| "failures ((p, Inl e) # rs) = (p, e) # failures rs"
| "failures ((p, Inr ok) # rs) = failures rs"

text \<open>
  How an entry of the checksum table fares on its own: its path cannot be formed
  (there is no workspace), the file is missing, it is a regular file whose digest
  differs, it is a directory, or it matches.
\<close>

datatype entry_status = NoWorkspace | Missing | Mismatch | IsDirectory | Matches

definition entry_status :: "ext \<Rightarrow> world \<Rightarrow> package \<Rightarrow> pystr \<times> pystr \<Rightarrow> entry_status" where
  "entry_status x w pkg e =
     (case resolve x w pkg (fst e) of
        Inl err \<Rightarrow> NoWorkspace
      | Inr None \<Rightarrow> Missing
      | Inr (Some (Dir es)) \<Rightarrow> IsDirectory
      | Inr (Some (File c)) \<Rightarrow> if md5_hexdigest x c = snd e then Matches else Mismatch)"

text \<open>
  The example of the specification: \<^verbatim>\<open>demo-1.0.apg\<close> holds a manifest and
  \<^verbatim>\<open>data/etc/demo.conf\<close>, and is installed on an empty root.  The sample collaborators
  decode every manifest but \<^verbatim>\<open>{}\<close> to that of \<^verbatim>\<open>demo 1.0\<close>, take the file content for
  its digest and refuse to decode the byte \<^verbatim>\<open>0xFF\<close>.  A sample script succeeds when its
  content is \<^verbatim>\<open>ok\<close>; \<^verbatim>\<open>lock\<close> succeeds and leaves the temporary directories impossible
  to remove; \<^verbatim>\<open>garble\<close> exits with status 1 and the byte \<^verbatim>\<open>0xFF\<close> on standard error; any
  other exits with status 1 and \<^verbatim>\<open>boom\<close> on standard error.
\<close>

definition demo_ext :: ext where
  "demo_ext = \<lparr>md5_hexdigest = (\<lambda>c. map of_char c),
               json_load = (\<lambda>c. if c = ''{}'' then Inr (JObj [])
                                 else Inr (JObj [(U ''name'', JStr (U ''demo'')),
                                                 (U ''version'', JStr (U ''1.0''))])),
               read_text = (\<lambda>c. (map of_char (takeWhile (\<lambda>b. b \<noteq> CHR 0xFF) c),
                                   if CHR 0xFF \<in> set c
                                   then Some (UnicodeDecodeError (U ''invalid start byte'')) else None)),
               decode_output = (\<lambda>c. if CHR 0xFF \<in> set c
                                      then Inl (UnicodeDecodeError (U ''invalid start byte''))
                                      else Inr (map of_char c)),
               py_repr = (\<lambda>v. U ''?''),
               environ = [(U ''PATH'', U ''/bin'')],
               run_process = (\<lambda>p c env w.
                  if c = ''ok'' then Exited 0 [] [] w
                  else if c = ''lock'' then Exited 0 [] [] (w\<lparr>locked := map fst (tmpdirs w)\<rparr>)
                  else if c = ''garble'' then Exited 1 [] [CHR 0xFF] w
                  else Exited 1 [] ''boom'' w),
               temp_name = (\<lambda>d. U ''/tmp/apginstall-'' @ show_nat d),
               stat_outside = (\<lambda>w t p. None),
               write_outside = (\<lambda>p ms w. Inl (OSError (U ''No such file or directory'')))\<rparr>"

definition demo_time :: datetime where
  "demo_time = \<lparr>year = 2025, month = 1, day = 21, hour = 13, minute = 21, second = 10\<rparr>"

definition demo_tree :: "(pystr \<times> node) list" where
  "demo_tree = [(U ''metadata.json'', File ''m''),
                (U ''data'', Dir [(U ''etc'', Dir [(U ''demo.conf'', File ''new'')])])]"

text \<open>
  Further archives: one without a manifest; one without a manifest whose \<^verbatim>\<open>md5sums\<close>
  is a single blank line; one with a manifest and that \<^verbatim>\<open>md5sums\<close>; one whose
  \<^verbatim>\<open>md5sums\<close> names the directory \<^verbatim>\<open>data\<close> before a file that is not in the archive;
  one whose \<^verbatim>\<open>md5sums\<close> records a wrong digest; one whose payload is a regular file
  \<^verbatim>\<open>etc\<close>; and one whose \<^verbatim>\<open>preinstall\<close> script is \<^verbatim>\<open>lock\<close>.
\<close>

definition nometa_tree :: "(pystr \<times> node) list" where
  "nometa_tree = [(U ''data'', Dir [])]"

definition blank_nometa_tree :: "(pystr \<times> node) list" where
  "blank_nometa_tree = [(U ''md5sums'', File [CHR 0x0A])]"

definition blank_tree :: "(pystr \<times> node) list" where
  "blank_tree = [(U ''metadata.json'', File ''m''), (U ''md5sums'', File [CHR 0x0A])]"

definition dirsum_tree :: "(pystr \<times> node) list" where
  "dirsum_tree = [(U ''metadata.json'', File ''m''),
                  (U ''md5sums'', File (''x  data'' @ [CHR 0x0A] @ ''y  gone'' @ [CHR 0x0A])),
                  (U ''data'', Dir [(U ''f'', File ''new'')])]"

definition badsum_tree :: "(pystr \<times> node) list" where
  "badsum_tree = [(U ''metadata.json'', File ''m''),
                  (U ''md5sums'', File (''old  data/f'' @ [CHR 0x0A])),
                  (U ''data'', Dir [(U ''f'', File ''new'')])]"

definition etcfile_tree :: "(pystr \<times> node) list" where
  "etcfile_tree = [(U ''metadata.json'', File ''m''), (U ''data'', Dir [(U ''etc'', File ''new'')])]"

definition lock_tree :: "(pystr \<times> node) list" where
  "lock_tree = [(U ''metadata.json'', File ''m''),
                (U ''scripts'', Dir [(U ''preinstall'', File ''lock'')])]"

definition demo_world :: world where
  "demo_world = \<lparr>sysroot = [], backups = [], tmpdirs = [], locked = [],
                 pkgfiles = [(U ''demo-1.0.apg'', demo_tree),
                             (U ''nometa.apg'', nometa_tree),
                             (U ''blank-nometa.apg'', blank_nometa_tree),
                             (U ''blank.apg'', blank_tree),
                             (U ''dirsum.apg'', dirsum_tree),
                             (U ''badsum.apg'', badsum_tree),
                             (U ''etcfile.apg'', etcfile_tree),
                             (U ''lock.apg'', lock_tree)],
                 clock = demo_time\<rparr>"

definition demo_state :: inst where
  "demo_state = \<lparr>wld = demo_world, emitted = [], errlog = []\<rparr>"

text \<open>
  A state in which the workspace 7 holds the \<^verbatim>\<open>preinstall\<close> script \<^verbatim>\<open>fail\<close>, the
  \<^verbatim>\<open>postinstall\<close> script \<^verbatim>\<open>garble\<close> and no other script.
\<close>

definition script_state :: inst where
  "script_state = \<lparr>wld = demo_world\<lparr>tmpdirs := [(7, [(U ''scripts'',
                                Dir [(U ''preinstall'', File ''fail''),
                                     (U ''postinstall'', File ''garble'')])])]\<rparr>,
                    emitted = [], errlog = []\<rparr>"

text \<open>
  A state in which the root holds \<^verbatim>\<open>/etc/passwd\<close> and \<^verbatim>\<open>/etc/demo.conf\<close>, and the
  workspace 7 the payload of \<open>etcfile_tree\<close>; the package extracted there.
\<close>

definition etc_state :: inst where
  "etc_state = \<lparr>wld = demo_world\<lparr>sysroot := [(U ''etc'', Dir [(U ''passwd'', File ''root''),
                                                                (U ''demo.conf'', File ''old'')])],
                                    tmpdirs := [(7, etcfile_tree)]\<rparr>,
                 emitted = [], errlog = []\<rparr>"

definition demo_meta :: jvalue where
  "demo_meta = JObj [(U ''name'', JStr (U ''demo'')), (U ''version'', JStr (U ''1.0''))]"

text \<open>What extracting \<^verbatim>\<open>dirsum.apg\<close> and \<^verbatim>\<open>badsum.apg\<close> in the sample state leaves.\<close>

definition dirsum_package :: package where
  "dirsum_package = \<lparr>pkg_path = U ''dirsum.apg'', temp_dir = Some 1, metadata = demo_meta,
                      md5sums = [(U ''data'', U ''x''), (U ''gone'', U ''y'')]\<rparr>"

definition dirsum_state :: inst where
  "dirsum_state = \<lparr>wld = demo_world\<lparr>tmpdirs := [(1, dirsum_tree)]\<rparr>, emitted = [], errlog = []\<rparr>"

definition badsum_package :: package where
  "badsum_package = \<lparr>pkg_path = U ''badsum.apg'', temp_dir = Some 1, metadata = demo_meta,
                      md5sums = [(U ''data/f'', U ''old'')]\<rparr>"

definition badsum_state :: inst where
  "badsum_state = \<lparr>wld = demo_world\<lparr>tmpdirs := [(1, badsum_tree)]\<rparr>, emitted = [], errlog = []\<rparr>"

definition etc_package :: package where
  "etc_package = \<lparr>pkg_path = U ''etcfile.apg'', temp_dir = Some 7, metadata = demo_meta, md5sums = []\<rparr>"

section \<open>Properties\<close>

subsection \<open>Evaluation on the sample inputs\<close>

lemmas demo_defs = demo_state_def demo_world_def demo_ext_def demo_tree_def demo_time_def
  nometa_tree_def blank_nometa_tree_def blank_tree_def dirsum_tree_def badsum_tree_def
  etcfile_tree_def lock_tree_def script_state_def etc_state_def demo_meta_def etc_package_def
  dirsum_package_def dirsum_state_def badsum_package_def badsum_state_def

lemmas install_defs =
  install_package_def install_try_def install_steps_def install_except_def install_finally_def
  and_then_def at_path_def temp_path_def emit_def logging_error_def
  extract_pkg_def read_md5sums_def Package_def mkdtemp_def ws_lookup_def ws_full_def Let_def
  verify_checksums_def verify_dependencies_def create_backup_def backup_body_def
  run_script_def copy_files_def
  register_package_def pkg_str_def py_str_def cleanup_def rglob_files_def resolve_def
  strftime_def zero_pad_def path_name_def path_parent_def Path_def components_def is_absolute_def
  script_env_def path_str_def split_two_spaces_def strip_def is_space_def lines_before_error_def
  U_def

lemma batch_percent_1_1: "batch_percent 1 1 = 100"
  by (simp add: batch_percent_def to_double_def floor_log2_def round_half_even_def)

lemma batch_percent_1_2: "batch_percent 1 2 = 50"
  by (simp add: batch_percent_def to_double_def floor_log2_def round_half_even_def)


lemma demo_install_ok:
  "install_package demo_ext (U ''demo-1.0.apg'') demo_state =
     (Inr True,
      \<lparr>wld = demo_world\<lparr>sysroot := [(U ''etc'', Dir [(U ''demo.conf'', File ''new'')])],
                         backups := [(U ''demo_20250121_132110.tar.xz'', [])]\<rparr>,
       emitted = [LogMessage (U ''Extracting demo-1.0.apg...''), ProgressUpdated 10,
                  ProgressUpdated 20, ProgressUpdated 30, LogMessage (U ''Creating backup...''),
                  ProgressUpdated 40, ProgressUpdated 50, LogMessage (U ''Copying files...''),
                  ProgressUpdated 70, ProgressUpdated 80, ProgressUpdated 90,
                  LogMessage (U ''Successfully installed demo 1.0'')],
       errlog = []\<rparr>)"
  by (simp add: install_defs demo_defs)

subsection \<open>What a step leaves untouched\<close>

lemma and_then_cases:
  assumes "and_then m f = (r, s')"
  obtains (raised) e where "m = (Inl e, s')" "r = Inl e"
        | (went_on) v s1 where "m = (Inr v, s1)" "f s1 = (r, s')"
  using assms by (auto simp: and_then_def split: prod.splits sum.splits)

lemma install_try_cases:
  assumes "install_try x p s = (pkg, r, s1)"
  obtains (raised) e where
      "extract_pkg x (Package p) (emit (LogMessage (U ''Extracting '' @ path_name (Path p) @ U ''...'')) s)
         = (Inl e, pkg, s1)" "r = Inl e"
    | (extracted) d s0 where
      "extract_pkg x (Package p) (emit (LogMessage (U ''Extracting '' @ path_name (Path p) @ U ''...'')) s)
         = (Inr d, pkg, s0)" "install_steps x pkg s0 = (r, s1)"
  using assms by (auto simp: install_try_def split: prod.splits sum.splits)

lemma wld_emit [simp]: "wld (emit ev s) = wld s"
  by (simp add: emit_def)

lemma progress_of_append: "progress_of (xs @ ys) = progress_of xs @ progress_of ys"
  by (induction xs rule: progress_of.induct) auto

lemma progress_emit:
  "progress (emit ev s) = progress s @ (case ev of ProgressUpdated p \<Rightarrow> [p] | _ \<Rightarrow> [])"
  by (cases ev) (simp_all add: progress_def emit_def progress_of_append)

lemma signals_of_append: "signals_of (xs @ ys) = signals_of xs @ signals_of ys"
  by (induction xs rule: signals_of.induct) auto

lemma signals_emit: "signals (emit ev s) = signals s @ signals_of [ev]"
  by (simp add: signals_def emit_def signals_of_append)

lemma errlog_emit: "errlog (emit ev s) = errlog s"
  by (simp add: emit_def)

lemma attempts_emit: "attempts (emit ev s) = attempts s @ filter is_attempt [ev]"
  by (simp add: attempts_def emit_def)

lemma progress_wld: "progress (s\<lparr>wld := w\<rparr>) = progress s"
  by (simp add: progress_def)

lemma progress_logging_error: "progress (logging_error m s) = progress s"
  by (simp add: progress_def logging_error_def)

lemma progress_cleanup: "progress (snd (cleanup pkg s)) = progress s"
  by (simp add: cleanup_def progress_wld split: option.splits)

lemma progress_extract: "extract_pkg x pkg s = (r, pkg', s') \<Longrightarrow> progress s' = progress s"
  by (auto simp: extract_pkg_def mkdtemp_def Let_def progress_wld
           split: option.splits node.splits sum.splits prod.splits)

lemma progress_verify_checksums: "verify_checksums x pkg s = (r, s') \<Longrightarrow> progress s' = progress s"
  by (auto simp: verify_checksums_def Let_def progress_emit split: if_splits option.splits)

lemma progress_report_dependencies:
  "report_dependencies x deps s = (r, s') \<Longrightarrow> progress s' = progress s"
  by (induction x deps s rule: report_dependencies.induct)
     (auto simp: progress_emit split: sum.splits)

lemma progress_verify_dependencies:
  "verify_dependencies x pkg s = (r, s') \<Longrightarrow> progress s' = progress s"
  by (auto simp: verify_dependencies_def Let_def progress_emit
           dest: progress_report_dependencies split: sum.splits if_splits)

lemma progress_create_backup: "create_backup x pkg s = (r, s') \<Longrightarrow> progress s' = progress s"
  by (auto simp: create_backup_def Let_def progress_emit progress_wld
           split: sum.splits if_splits option.splits)

lemma progress_run_script: "run_script x p s = (r, s') \<Longrightarrow> progress s' = progress s"
  by (auto simp: run_script_def Let_def progress_emit progress_wld
           split: option.splits node.splits proc_outcome.splits sum.splits if_splits)

lemma progress_copy_loop: "copy_loop fs s = (r, s') \<Longrightarrow> progress s' = progress s"
  by (induction fs s rule: copy_loop.induct) (auto simp: progress_wld split: sum.splits)

lemma progress_copy_files: "copy_files p s = (r, s') \<Longrightarrow> progress s' = progress s"
  by (auto simp: copy_files_def progress_emit dest: progress_copy_loop split: option.splits)

lemma progress_at_run_script:
  "at_path pkg cs (run_script x) s = (r, s') \<Longrightarrow> progress s' = progress s"
  by (auto simp: at_path_def dest: progress_run_script split: sum.splits)

lemma progress_at_copy_files:
  "at_path pkg cs copy_files s = (r, s') \<Longrightarrow> progress s' = progress s"
  by (auto simp: at_path_def dest: progress_copy_files split: sum.splits)

lemma signals_wld: "signals (s\<lparr>wld := w\<rparr>) = signals s"
  by (simp add: signals_def)

lemma signals_logging_error: "signals (logging_error m s) = signals s"
  by (simp add: signals_def logging_error_def)

lemma signals_cleanup: "signals (snd (cleanup pkg s)) = signals s"
  by (simp add: cleanup_def signals_wld split: option.splits)

lemma signals_extract: "extract_pkg x pkg s = (r, pkg', s') \<Longrightarrow> signals s' = signals s"
  by (auto simp: extract_pkg_def mkdtemp_def Let_def signals_wld
           split: option.splits node.splits sum.splits prod.splits)

lemma signals_verify_checksums: "verify_checksums x pkg s = (r, s') \<Longrightarrow> signals s' = signals s"
  by (auto simp: verify_checksums_def Let_def signals_emit split: if_splits option.splits)

lemma signals_report_dependencies:
  "report_dependencies x deps s = (r, s') \<Longrightarrow> signals s' = signals s"
  by (induction x deps s rule: report_dependencies.induct)
     (auto simp: signals_emit split: sum.splits)

lemma signals_verify_dependencies:
  "verify_dependencies x pkg s = (r, s') \<Longrightarrow> signals s' = signals s"
  by (auto simp: verify_dependencies_def Let_def signals_emit
           dest: signals_report_dependencies split: sum.splits if_splits)

lemma signals_create_backup: "create_backup x pkg s = (r, s') \<Longrightarrow> signals s' = signals s"
  by (auto simp: create_backup_def Let_def signals_emit signals_wld
           split: sum.splits if_splits option.splits)

lemma signals_run_script: "run_script x p s = (r, s') \<Longrightarrow> signals s' = signals s"
  by (auto simp: run_script_def Let_def signals_emit signals_wld
           split: option.splits node.splits proc_outcome.splits sum.splits if_splits)

lemma signals_copy_loop: "copy_loop fs s = (r, s') \<Longrightarrow> signals s' = signals s"
  by (induction fs s rule: copy_loop.induct) (auto simp: signals_wld split: sum.splits)

lemma signals_copy_files: "copy_files p s = (r, s') \<Longrightarrow> signals s' = signals s"
  by (auto simp: copy_files_def signals_emit dest: signals_copy_loop split: option.splits)

lemma signals_at_run_script:
  "at_path pkg cs (run_script x) s = (r, s') \<Longrightarrow> signals s' = signals s"
  by (auto simp: at_path_def dest: signals_run_script split: sum.splits)

lemma signals_at_copy_files:
  "at_path pkg cs copy_files s = (r, s') \<Longrightarrow> signals s' = signals s"
  by (auto simp: at_path_def dest: signals_copy_files split: sum.splits)

lemma errlog_wld: "errlog (s\<lparr>wld := w\<rparr>) = errlog s"
  by simp

lemma errlog_cleanup: "errlog (snd (cleanup pkg s)) = errlog s"
  by (simp add: cleanup_def errlog_wld split: option.splits)

lemma errlog_extract: "extract_pkg x pkg s = (r, pkg', s') \<Longrightarrow> errlog s' = errlog s"
  by (auto simp: extract_pkg_def mkdtemp_def Let_def errlog_wld
           split: option.splits node.splits sum.splits prod.splits)

lemma errlog_verify_checksums: "verify_checksums x pkg s = (r, s') \<Longrightarrow> errlog s' = errlog s"
  by (auto simp: verify_checksums_def Let_def errlog_emit split: if_splits option.splits)

lemma errlog_report_dependencies:
  "report_dependencies x deps s = (r, s') \<Longrightarrow> errlog s' = errlog s"
  by (induction x deps s rule: report_dependencies.induct)
     (auto simp: errlog_emit split: sum.splits)

lemma errlog_verify_dependencies:
  "verify_dependencies x pkg s = (r, s') \<Longrightarrow> errlog s' = errlog s"
  by (auto simp: verify_dependencies_def Let_def errlog_emit
           dest: errlog_report_dependencies split: sum.splits if_splits)

lemma errlog_create_backup: "create_backup x pkg s = (r, s') \<Longrightarrow> errlog s' = errlog s"
  by (auto simp: create_backup_def Let_def errlog_emit errlog_wld
           split: sum.splits if_splits option.splits)

lemma errlog_run_script: "run_script x p s = (r, s') \<Longrightarrow> errlog s' = errlog s"
  by (auto simp: run_script_def Let_def errlog_emit errlog_wld
           split: option.splits node.splits proc_outcome.splits sum.splits if_splits)

lemma errlog_copy_loop: "copy_loop fs s = (r, s') \<Longrightarrow> errlog s' = errlog s"
  by (induction fs s rule: copy_loop.induct) (auto simp: errlog_wld split: sum.splits)

lemma errlog_copy_files: "copy_files p s = (r, s') \<Longrightarrow> errlog s' = errlog s"
  by (auto simp: copy_files_def errlog_emit dest: errlog_copy_loop split: option.splits)

lemma errlog_at_run_script:
  "at_path pkg cs (run_script x) s = (r, s') \<Longrightarrow> errlog s' = errlog s"
  by (auto simp: at_path_def dest: errlog_run_script split: sum.splits)

lemma errlog_at_copy_files:
  "at_path pkg cs copy_files s = (r, s') \<Longrightarrow> errlog s' = errlog s"
  by (auto simp: at_path_def dest: errlog_copy_files split: sum.splits)

lemma attempts_wld: "attempts (s\<lparr>wld := w\<rparr>) = attempts s"
  by (simp add: attempts_def)

lemma attempts_logging_error: "attempts (logging_error m s) = attempts s"
  by (simp add: attempts_def logging_error_def)

lemma attempts_cleanup: "attempts (snd (cleanup pkg s)) = attempts s"
  by (simp add: cleanup_def attempts_wld split: option.splits)

lemma attempts_extract: "extract_pkg x pkg s = (r, pkg', s') \<Longrightarrow> attempts s' = attempts s"
  by (auto simp: extract_pkg_def mkdtemp_def Let_def attempts_wld
           split: option.splits node.splits sum.splits prod.splits)

lemma attempts_verify_checksums: "verify_checksums x pkg s = (r, s') \<Longrightarrow> attempts s' = attempts s"
  by (auto simp: verify_checksums_def Let_def attempts_emit U_def split: if_splits option.splits)

lemma attempts_report_dependencies:
  "report_dependencies x deps s = (r, s') \<Longrightarrow> attempts s' = attempts s"
  by (induction x deps s rule: report_dependencies.induct)
     (auto simp: attempts_emit U_def split: sum.splits)

lemma attempts_verify_dependencies:
  "verify_dependencies x pkg s = (r, s') \<Longrightarrow> attempts s' = attempts s"
  by (auto simp: verify_dependencies_def Let_def attempts_emit U_def
           dest: attempts_report_dependencies split: sum.splits if_splits)

lemma attempts_create_backup: "create_backup x pkg s = (r, s') \<Longrightarrow> attempts s' = attempts s"
  by (auto simp: create_backup_def Let_def attempts_emit U_def attempts_wld
           split: sum.splits if_splits option.splits)

lemma attempts_run_script: "run_script x p s = (r, s') \<Longrightarrow> attempts s' = attempts s"
  by (auto simp: run_script_def Let_def attempts_emit U_def attempts_wld
           split: option.splits node.splits proc_outcome.splits sum.splits if_splits)

lemma attempts_copy_loop: "copy_loop fs s = (r, s') \<Longrightarrow> attempts s' = attempts s"
  by (induction fs s rule: copy_loop.induct) (auto simp: attempts_wld split: sum.splits)

lemma attempts_copy_files: "copy_files p s = (r, s') \<Longrightarrow> attempts s' = attempts s"
  by (auto simp: copy_files_def attempts_emit U_def dest: attempts_copy_loop split: option.splits)

lemma attempts_at_run_script:
  "at_path pkg cs (run_script x) s = (r, s') \<Longrightarrow> attempts s' = attempts s"
  by (auto simp: at_path_def dest: attempts_run_script split: sum.splits)

lemma attempts_at_copy_files:
  "at_path pkg cs copy_files s = (r, s') \<Longrightarrow> attempts s' = attempts s"
  by (auto simp: at_path_def dest: attempts_copy_files split: sum.splits)

lemma progress_install_steps:
  assumes "install_steps x pkg s = (r, s')"
  shows "\<exists>pre. progress s' = progress s @ pre \<and> prefix pre full_progress
               \<and> (\<forall>ok. r = Inr ok \<longrightarrow> pre = full_progress)"
  using assms unfolding install_steps_def
  apply (elim and_then_cases)
  apply (auto simp: progress_emit full_progress_def register_package_def Let_def
       dest!: progress_verify_checksums progress_verify_dependencies progress_create_backup
              progress_at_run_script progress_at_copy_files
       split: sum.splits)
  done

lemma signals_install_steps:
  assumes "install_steps x pkg s = (r, s')"
  shows "signals s' = signals s"
  using assms unfolding install_steps_def
  apply (elim and_then_cases)
  apply (auto simp: signals_emit register_package_def Let_def
       dest!: signals_verify_checksums signals_verify_dependencies signals_create_backup
              signals_at_run_script signals_at_copy_files
       split: sum.splits)
  done

lemma attempts_install_steps:
  assumes "install_steps x pkg s = (r, s')"
  shows "attempts s' = attempts s"
  using assms unfolding install_steps_def
  apply (elim and_then_cases)
  apply (auto simp: attempts_emit U_def register_package_def Let_def
       dest!: attempts_verify_checksums attempts_verify_dependencies attempts_create_backup
              attempts_at_run_script attempts_at_copy_files
       split: sum.splits)
  done

lemma errlog_install_steps:
  assumes "install_steps x pkg s = (r, s')"
  shows "errlog s' = errlog s \<and> (\<forall>ok. r = Inr ok \<longrightarrow> ok)"
  using assms unfolding install_steps_def
  apply (elim and_then_cases)
  apply (auto simp: errlog_emit register_package_def Let_def
       dest!: errlog_verify_checksums errlog_verify_dependencies errlog_create_backup
              errlog_at_run_script errlog_at_copy_files
       split: sum.splits)
  done

lemma install_finally_frame:
  assumes "install_finally pkg (r1, s1) = (r, s')"
  shows "progress s' = progress s1 \<and> signals s' = signals s1 \<and> errlog s' = errlog s1
         \<and> attempts s' = attempts s1 \<and> (\<forall>ok. r = Inr ok \<longrightarrow> r1 = Inr ok)"
proof -
  obtain c s2 where c: "cleanup pkg s1 = (c, s2)" by (cases "cleanup pkg s1")
  from progress_cleanup[of pkg s1] signals_cleanup[of pkg s1] errlog_cleanup[of pkg s1]
       attempts_cleanup[of pkg s1] c
  have "progress s2 = progress s1 \<and> signals s2 = signals s1 \<and> errlog s2 = errlog s1
        \<and> attempts s2 = attempts s1" by simp
  with assms c show ?thesis
    by (cases c) (auto simp: install_finally_def)
qed

lemma install_except_frame:
  assumes "install_except x pkg e s1 = (r, s')"
  shows "progress s' = progress s1 \<and> signals s' = signals s1 \<and> errlog s' = errlog s1
         \<and> attempts s' = attempts s1 \<and> wld s' = wld s1 \<and> (\<exists>e'. r = Inl e')"
  using assms
  by (auto simp: install_except_def progress_emit signals_emit errlog_emit attempts_emit U_def
           split: sum.splits)

lemma install_try_frame:
  assumes "install_try x p s = (pkg, r, s1)"
  shows "(\<exists>pre. progress s1 = progress s @ pre \<and> prefix pre full_progress
               \<and> (\<forall>ok. r = Inr ok \<longrightarrow> pre = full_progress))
         \<and> signals s1 = signals s \<and> errlog s1 = errlog s
         \<and> attempts s1 = attempts s @ [attempt_line p] \<and> (\<forall>ok. r = Inr ok \<longrightarrow> ok)"
  using assms
proof (cases rule: install_try_cases)
  case (raised e)
  from progress_extract[OF raised(1)] signals_extract[OF raised(1)] errlog_extract[OF raised(1)]
       attempts_extract[OF raised(1)] raised(2)
  show ?thesis
    by (simp add: progress_emit signals_emit errlog_emit attempts_emit attempt_line_def U_def)
next
  case (extracted d s0)
  from progress_extract[OF extracted(1)] signals_extract[OF extracted(1)]
       errlog_extract[OF extracted(1)] attempts_extract[OF extracted(1)]
       progress_install_steps[OF extracted(2)] signals_install_steps[OF extracted(2)]
       errlog_install_steps[OF extracted(2)] attempts_install_steps[OF extracted(2)]
  show ?thesis
    by (auto simp: progress_emit signals_emit errlog_emit attempts_emit attempt_line_def U_def)
qed

lemma install_package_frame:
  assumes "install_package x p s = (r, s')"
  shows "(\<exists>pre. progress s' = progress s @ pre \<and> prefix pre full_progress
               \<and> (\<forall>ok. r = Inr ok \<longrightarrow> pre = full_progress))
         \<and> signals s' = signals s \<and> errlog s' = errlog s
         \<and> attempts s' = attempts s @ [attempt_line p] \<and> (\<forall>ok. r = Inr ok \<longrightarrow> ok)"
proof -
  obtain pkg r1 s1 where t: "install_try x p s = (pkg, r1, s1)"
    by (metis prod_cases3)
  note a = install_try_frame[OF t]
  show ?thesis
  proof (cases r1)
    case (Inr ok)
    with assms t have "install_finally pkg (Inr ok, s1) = (r, s')"
      by (simp add: install_package_def)
    from install_finally_frame[OF this] a Inr show ?thesis by auto
  next
    case (Inl e)
    obtain r2 s2 where x: "install_except x pkg e s1 = (r2, s2)"
      by (cases "install_except x pkg e s1")
    with assms t Inl have "install_finally pkg (r2, s2) = (r, s')"
      by (simp add: install_package_def)
    from install_finally_frame[OF this] install_except_frame[OF x] a Inl show ?thesis by auto
  qed
qed

subsection \<open>The batch loop\<close>

lemma run_loop_step:
  "run_loop x n i k (p # ps) s =
     run_loop x n (i + 1) (case fst (install_package x p s) of Inl e \<Rightarrow> k | Inr ok \<Rightarrow> k + 1) ps
       (loop_next n i p (install_package x p s))"
proof (cases "install_package x p s")
  case (Pair r s1)
  then show ?thesis
    using install_package_frame[OF Pair]
    by (cases r) (auto simp: loop_next_def failure_line_def)
qed

lemma run_loop_append:
  "run_loop x n i k (ps @ qs) s =
     run_loop x n (i + length ps) (fst (run_loop x n i k ps s)) qs (snd (run_loop x n i k ps s))"
proof (induction ps arbitrary: i k s)
  case Nil
  then show ?case by simp
next
  case (Cons p ps)
  show ?case
    unfolding append_Cons run_loop_step Cons.IH by simp
qed

lemma length_batch_results: "length (batch_results x n i ps s) = length ps"
  by (induction ps arbitrary: i s) auto

lemma map_fst_batch_results: "map fst (batch_results x n i ps s) = ps"
  by (induction ps arbitrary: i s) auto

lemma length_failures: "length (failures rs) \<le> length rs"
  by (induction rs rule: failures.induct) auto

lemma loop_next_frame:
  "signals (loop_next n i p (r, s1)) = signals s1
   \<and> attempts (loop_next n i p (r, s1)) = attempts s1
   \<and> progress (loop_next n i p (r, s1)) = progress s1 @ [batch_percent i n]
   \<and> errlog (loop_next n i p (r, s1)) = errlog s1 @ (case r of Inl e \<Rightarrow> [failure_line p e] | Inr ok \<Rightarrow> [])"
  by (cases r) (simp_all add: loop_next_def signals_emit errlog_emit attempts_emit progress_emit
                   signals_logging_error attempts_logging_error progress_logging_error,
     simp add: logging_error_def)

lemma run_loop_outcome:
  "fst (run_loop x n i k ps s) + length (failures (batch_results x n i ps s)) = k + length ps
   \<and> errlog (snd (run_loop x n i k ps s))
       = errlog s @ map (\<lambda>pe. failure_line (fst pe) (snd pe)) (failures (batch_results x n i ps s))
   \<and> signals (snd (run_loop x n i k ps s)) = signals s
   \<and> attempts (snd (run_loop x n i k ps s)) = attempts s @ map attempt_line ps"
proof (induction ps arbitrary: i k s)
  case Nil
  then show ?case by simp
next
  case (Cons p ps)
  obtain r s1 where ip: "install_package x p s = (r, s1)" by (cases "install_package x p s")
  note fr = install_package_frame[OF ip] loop_next_frame[of n i p r s1]
  show ?case
  proof (cases r)
    case (Inl e)
    with Cons.IH[of "i + 1" k "loop_next n i p (r, s1)"] fr ip show ?thesis
      unfolding run_loop_step by simp
  next
    case (Inr ok)
    with Cons.IH[of "i + 1" "k + 1" "loop_next n i p (r, s1)"] fr ip show ?thesis
      unfolding run_loop_step by simp
  qed
qed

subsection \<open>Progress of a single package\<close>

text \<open>
  C3.  In a batch of exactly one package that installs successfully, the percentages
  emitted during the run are 10, 20, 30, 40, 50, 70, 80, 90, 100, in this order and
  with no other percentage.
\<close>

theorem single_success_progress:
  assumes "fst (install_package x p s) = Inr ok"
  shows "progress (run x [p] s) = progress s @ [10, 20, 30, 40, 50, 70, 80, 90, 100]"
proof -
  obtain s1 where i: "install_package x p s = (Inr ok, s1)"
    using assms by (cases "install_package x p s") auto
  from install_package_frame[OF i]
  have "progress s1 = progress s @ full_progress" by auto
  then show ?thesis using i batch_percent_1_1
    by (simp add: run_def Let_def progress_emit full_progress_def split: if_splits)
qed

theorem single_success_progress_witness:
  "fst (install_package demo_ext (U ''demo-1.0.apg'') demo_state) = Inr True
   \<and> progress (run demo_ext [U ''demo-1.0.apg''] demo_state) = [10, 20, 30, 40, 50, 70, 80, 90, 100]"
proof -
  have h: "fst (install_package demo_ext (U ''demo-1.0.apg'') demo_state) = Inr True"
    by (simp add: demo_install_ok)
  have e: "progress demo_state = []" by (simp add: progress_def demo_state_def)
  show ?thesis using single_success_progress[OF h] h e by simp
qed

subsection \<open>Extraction\<close>

lemma ws_lookup_update:
  "ws_lookup (w\<lparr>tmpdirs := AList.update d tree ts\<rparr>) (d, [name]) = map_of tree name"
  by (simp add: ws_lookup_def update_conv' split: option.splits)

lemma fold_max_ge: "(k::nat) \<in> set ks \<Longrightarrow> k \<le> fold max ks a"
proof (induction ks arbitrary: a)
  case Nil
  then show ?case by simp
next
  case (Cons x xs)
  have mono: "\<And>b. b \<le> fold max xs b"
  proof -
    fix b show "b \<le> fold max xs b"
      by (induction xs arbitrary: b) (auto intro: order_trans[OF max.cobounded2])
  qed
  from Cons show ?case
    by (auto intro: order_trans[OF max.cobounded1 mono])
qed

lemma mkdtemp_fresh: "fst (mkdtemp w) \<notin> set (map fst (tmpdirs w))"
proof
  assume "fst (mkdtemp w) \<in> set (map fst (tmpdirs w))"
  from fold_max_ge[OF this, of 0] show False by (simp add: mkdtemp_def Let_def)
qed

lemma extract_no_archive:
  assumes "map_of (pkgfiles (wld s)) (pkg_path pkg) = None"
  shows "extract_pkg x pkg s =
           (Inl (ReadError (U ''cannot open archive'')), pkg\<lparr>temp_dir := Some (fst (mkdtemp (wld s)))\<rparr>,
            s\<lparr>wld := snd (mkdtemp (wld s))\<rparr>)"
  using assms by (simp add: extract_pkg_def mkdtemp_def Let_def)

lemma extract_unfold:
  assumes "map_of (pkgfiles (wld s)) (pkg_path pkg) = Some tree"
  defines "d \<equiv> fst (mkdtemp (wld s))"
  defines "s2 \<equiv> s\<lparr>wld := (wld s)\<lparr>tmpdirs := AList.update d tree (tmpdirs (wld s) @ [(d, [])])\<rparr>\<rparr>"
  defines "pkg1 \<equiv> pkg\<lparr>temp_dir := Some d\<rparr>"
  shows "extract_pkg x pkg s =
     (case map_of tree (U ''metadata.json'') of
        None \<Rightarrow> (Inl (ValidationError (U ''metadata.json not found in package'')), pkg1, s2)
      | Some (Dir es) \<Rightarrow> (Inl (OSError (U ''Is a directory'')), pkg1, s2)
      | Some (File c) \<Rightarrow>
          (case json_load x c of
             Inl e \<Rightarrow> (Inl e, pkg1, s2)
           | Inr v \<Rightarrow>
               (case map_of tree (U ''md5sums'') of
                  None \<Rightarrow> (Inr d, pkg1\<lparr>metadata := v\<rparr>, s2)
                | Some (Dir es) \<Rightarrow> (Inl (OSError (U ''Is a directory'')), pkg1\<lparr>metadata := v\<rparr>, s2)
                | Some (File c') \<Rightarrow>
                    (case read_md5sums x c' (md5sums pkg) of
                       (Some e, m) \<Rightarrow> (Inl e, pkg1\<lparr>metadata := v, md5sums := m\<rparr>, s2)
                     | (None, m) \<Rightarrow> (Inr d, pkg1\<lparr>metadata := v, md5sums := m\<rparr>, s2)))))"
  using assms(1) unfolding d_def s2_def pkg1_def
  by (simp add: extract_pkg_def mkdtemp_def Let_def ws_lookup_update
           split: option.splits node.splits sum.splits prod.splits)

text \<open>
  C9.  Extraction fails with \<^verbatim>\<open>ValidationError\<close> when \<^verbatim>\<open>metadata.json\<close> is absent from
  the unpacked archive; when it succeeds it returns the workspace, a new directory
  that holds the unpacked tree, and the package's metadata is the decoded manifest.
\<close>

theorem extract_contract:
  "(map_of (pkgfiles (wld s)) (pkg_path pkg) = Some tree \<and> map_of tree (U ''metadata.json'') = None
      \<longrightarrow> (\<exists>pkg' s'. extract_pkg x pkg s =
                        (Inl (ValidationError (U ''metadata.json not found in package'')), pkg', s')))
   \<and> (extract_pkg x pkg2 s2 = (Inr d, pkg2', s2')
      \<longrightarrow> temp_dir pkg2' = Some d
          \<and> d \<notin> set (map fst (tmpdirs (wld s2)))
          \<and> (\<exists>tree2 c. map_of (pkgfiles (wld s2)) (pkg_path pkg2) = Some tree2
                     \<and> map_of (tmpdirs (wld s2')) d = Some tree2
                     \<and> map_of tree2 (U ''metadata.json'') = Some (File c)
                     \<and> json_load x c = Inr (metadata pkg2')))"
proof (rule conjI; rule impI)
  assume "map_of (pkgfiles (wld s)) (pkg_path pkg) = Some tree \<and> map_of tree (U ''metadata.json'') = None"
  then show "\<exists>pkg' s'. extract_pkg x pkg s =
                        (Inl (ValidationError (U ''metadata.json not found in package'')), pkg', s')"
    by (simp add: extract_unfold)
next
  assume ok: "extract_pkg x pkg2 s2 = (Inr d, pkg2', s2')"
  show "temp_dir pkg2' = Some d
          \<and> d \<notin> set (map fst (tmpdirs (wld s2)))
          \<and> (\<exists>tree2 c. map_of (pkgfiles (wld s2)) (pkg_path pkg2) = Some tree2
                     \<and> map_of (tmpdirs (wld s2')) d = Some tree2
                     \<and> map_of tree2 (U ''metadata.json'') = Some (File c)
                     \<and> json_load x c = Inr (metadata pkg2'))"
  proof (cases "map_of (pkgfiles (wld s2)) (pkg_path pkg2)")
    case None
    with ok show ?thesis by (simp add: extract_no_archive)
  next
    case (Some tree2)
    from ok mkdtemp_fresh[of "wld s2"] show ?thesis
      unfolding extract_unfold[OF Some]
      by (auto simp: Some update_conv' split: option.splits node.splits sum.splits prod.splits)
  qed
qed

theorem extract_contract_witness:
  "(map_of (pkgfiles (wld demo_state)) (pkg_path (Package (U ''nometa.apg''))) = Some nometa_tree
    \<and> map_of nometa_tree (U ''metadata.json'') = None)
   \<and> (\<exists>pkg' s'. extract_pkg demo_ext (Package (U ''nometa.apg'')) demo_state =
                        (Inl (ValidationError (U ''metadata.json not found in package'')), pkg', s'))
   \<and> fst (extract_pkg demo_ext (Package (U ''demo-1.0.apg'')) demo_state) = Inr 1
   \<and> temp_dir (fst (snd (extract_pkg demo_ext (Package (U ''demo-1.0.apg'')) demo_state))) = Some 1
   \<and> metadata (fst (snd (extract_pkg demo_ext (Package (U ''demo-1.0.apg'')) demo_state)))
       = JObj [(U ''name'', JStr (U ''demo'')), (U ''version'', JStr (U ''1.0''))]"
proof -
  have h1: "map_of (pkgfiles (wld demo_state)) (pkg_path (Package (U ''nometa.apg''))) = Some nometa_tree
            \<and> map_of nometa_tree (U ''metadata.json'') = None"
    by (simp add: demo_defs Package_def U_def)
  obtain r pkg' s' where e: "extract_pkg demo_ext (Package (U ''demo-1.0.apg'')) demo_state = (r, pkg', s')"
    by (metis prod_cases3)
  have h2: "r = Inr 1"
    using e by (simp add: extract_pkg_def Package_def demo_defs mkdtemp_def ws_lookup_def Let_def U_def)
  have m: "metadata pkg' = JObj [(U ''name'', JStr (U ''demo'')), (U ''version'', JStr (U ''1.0''))]"
    using e by (auto simp: extract_pkg_def Package_def demo_defs mkdtemp_def ws_lookup_def Let_def U_def)
  from extract_contract[of demo_state "Package (U ''nometa.apg'')" nometa_tree demo_ext
         "Package (U ''demo-1.0.apg'')" demo_state 1 pkg' s'] h1 e h2 m
  show ?thesis by simp
qed

subsection \<open>The outcome of a batch\<close>

lemma run_observed:
  "errlog (run x ps s) = errlog (snd (run_loop x (length ps) 1 0 ps s))
   \<and> attempts (run x ps s) = attempts (snd (run_loop x (length ps) 1 0 ps s))
   \<and> signals (run x ps s) = signals (snd (run_loop x (length ps) 1 0 ps s))
        @ [if fst (run_loop x (length ps) 1 0 ps s) = length ps then InstallationCompleted
           else InstallationFailed (U ''Failed to install ''
                  @ show_nat (length ps - fst (run_loop x (length ps) 1 0 ps s)) @ U '' package(s)'')]"
  by (cases "run_loop x (length ps) 1 0 ps s")
     (simp add: run_def Let_def errlog_emit attempts_emit signals_emit)

lemma nometa_install:
  "install_package demo_ext (U ''nometa.apg'') demo_state =
     (Inl (ValidationError (U ''metadata.json not found in package'')),
      \<lparr>wld = demo_world,
       emitted = [LogMessage (U ''Extracting nometa.apg...''),
                  LogMessage (U ''Failed to install Unknown Unknown: metadata.json not found in package'')],
       errlog = []\<rparr>)"
  by (simp add: install_defs demo_defs)

lemma nometa_then_demo:
  "fst (install_package demo_ext (U ''demo-1.0.apg'')
          (loop_next 2 1 (U ''nometa.apg'') (install_package demo_ext (U ''nometa.apg'') demo_state)))
     = Inr True"
  unfolding nometa_install
  by (simp add: install_defs demo_defs loop_next_def failure_line_def batch_percent_1_2)

lemma demo_batch_results:
  "batch_results demo_ext 2 1 [U ''nometa.apg'', U ''demo-1.0.apg''] demo_state =
     [(U ''nometa.apg'', Inl (ValidationError (U ''metadata.json not found in package''))),
      (U ''demo-1.0.apg'', Inr True)]"
  using nometa_then_demo by (simp add: nometa_install)

text \<open>
  C1.  In a batch of \<open>n\<close> packages of which \<open>k\<close> fail (their pipeline raises, in the
  state the packages before them have left), the loop ends with \<open>n - k\<close> successes,
  the run has logged exactly one failure detail for each failed package, in order,
  and its last act is the one batch signal: completed when \<open>k = 0\<close>, failed with the
  count \<open>k\<close> otherwise.
\<close>

theorem batch_outcome:
  "(let n = length ps;
        rs = batch_results x n 1 ps s;
        k = length (failures rs)
    in map fst rs = ps \<and> k \<le> n
       \<and> fst (run_loop x n 1 0 ps s) = n - k
       \<and> errlog (run x ps s) = errlog s @ map (\<lambda>pe. failure_line (fst pe) (snd pe)) (failures rs)
       \<and> length (errlog (run x ps s)) = length (errlog s) + k
       \<and> signals (run x ps s) = signals s @
            [if k = 0 then InstallationCompleted
             else InstallationFailed (U ''Failed to install '' @ show_nat k @ U '' package(s)'')])"
proof -
  define n where "n = length ps"
  define rs where "rs = batch_results x n 1 ps s"
  define k where "k = length (failures rs)"
  note o = run_loop_outcome[of x n 1 0 ps s, folded rs_def k_def]
  have kn: "k \<le> n"
    using length_failures[of rs] by (simp add: k_def rs_def n_def length_batch_results)
  have "fst (run_loop x n 1 0 ps s) + k = n"
    using o by (simp add: n_def)
  then have su: "fst (run_loop x n 1 0 ps s) = n - k"
    by arith
  have m: "map fst rs = ps" by (simp add: rs_def map_fst_batch_results)
  have e: "errlog (run x ps s) = errlog s @ map (\<lambda>pe. failure_line (fst pe) (snd pe)) (failures rs)"
    using o run_observed[of x ps s] by (simp add: n_def)
  have sg: "signals (run x ps s) = signals s @
            [if k = 0 then InstallationCompleted
             else InstallationFailed (U ''Failed to install '' @ show_nat k @ U '' package(s)'')]"
  proof -
    have "n - (n - k) = k" using kn by simp
    moreover have "(n - k = n) = (k = 0)" using kn
      by (cases "n = 0") auto
    ultimately show ?thesis
      using o run_observed[of x ps s] su by (simp add: n_def del: show_nat.simps)
  qed
  show ?thesis
    unfolding Let_def n_def[symmetric] rs_def[symmetric] k_def[symmetric]
    using kn su m e sg by (simp add: k_def del: show_nat.simps)
qed

theorem batch_outcome_witness:
  "fst (run_loop demo_ext 2 1 0 [U ''nometa.apg'', U ''demo-1.0.apg''] demo_state) = 1
   \<and> errlog (run demo_ext [U ''nometa.apg'', U ''demo-1.0.apg''] demo_state)
       = [U ''Failed to install nometa.apg: metadata.json not found in package'']
   \<and> signals (run demo_ext [U ''nometa.apg'', U ''demo-1.0.apg''] demo_state)
       = [InstallationFailed (U ''Failed to install 1 package(s)'')]"
proof -
  have l: "length [U ''nometa.apg'', U ''demo-1.0.apg''] = 2" by simp
  note b = batch_outcome[of "[U ''nometa.apg'', U ''demo-1.0.apg'']" demo_ext demo_state,
                         unfolded Let_def l demo_batch_results]
  have e: "errlog demo_state = []" "signals demo_state = []"
    by (simp_all add: signals_def demo_state_def)
  from b e show ?thesis by (simp add: failure_line_def U_def)
qed

text \<open>
  C6.  When the pipeline of a package \<open>p\<close> of a batch raises an error \<open>e\<close>, the run
  logs one failure detail that names \<open>p\<close>, right after the details logged before,
  and goes on: the details of the packages after \<open>p\<close> follow, every package of the
  batch is started, in the order given, \<open>p\<close> adds nothing to the successes, and the
  run ends with the batch-failed signal.
\<close>

theorem package_error_is_caught:
  assumes "run_loop x n 1 0 ps s = (k, s0)"
      and "install_package x p s0 = (Inl e, s1)"
      and "n = length (ps @ p # qs)"
  shows "(let s2 = emit (ProgressUpdated (batch_percent (length ps + 1) n))
                     (logging_error (failure_line p e) s1);
              rs = batch_results x n (length ps + 2) qs s2
          in errlog (run x (ps @ p # qs) s)
               = errlog s0 @ failure_line p e # map (\<lambda>pe. failure_line (fst pe) (snd pe)) (failures rs)
             \<and> attempts (run x (ps @ p # qs) s) = attempts s @ map attempt_line (ps @ p # qs)
             \<and> fst (run_loop x n 1 0 (ps @ p # qs) s) + length (failures rs) = k + length qs
             \<and> (\<exists>m. signals (run x (ps @ p # qs) s) = signals s @ [InstallationFailed m]))"
proof -
  define s2 where "s2 = emit (ProgressUpdated (batch_percent (length ps + 1) n))
                     (logging_error (failure_line p e) s1)"
  define rs where "rs = batch_results x n (length ps + 2) qs s2"
  have split: "run_loop x n 1 0 (ps @ p # qs) s = run_loop x n (length ps + 2) k qs s2"
    using assms(1,2) by (simp add: run_loop_append s2_def failure_line_def)
  note o = run_loop_outcome[of x n "length ps + 2" k qs s2, folded rs_def]
  note w = run_loop_outcome[of x n 1 0 "ps @ p # qs" s]
  have e2: "errlog s2 = errlog s0 @ [failure_line p e]"
    using install_package_frame[OF assms(2)]
    by (simp add: s2_def errlog_emit logging_error_def)
  have el: "errlog (run x (ps @ p # qs) s)
               = errlog s0 @ failure_line p e # map (\<lambda>pe. failure_line (fst pe) (snd pe)) (failures rs)"
    using run_observed[of x "ps @ p # qs" s] split o e2 assms(3) by simp
  have at: "attempts (run x (ps @ p # qs) s) = attempts s @ map attempt_line (ps @ p # qs)"
    using run_observed[of x "ps @ p # qs" s] w assms(3) by simp
  have ct: "fst (run_loop x n 1 0 (ps @ p # qs) s) + length (failures rs) = k + length qs"
    using split o by simp
  have "length (failures rs) \<le> length qs"
    using length_failures[of rs] by (simp add: rs_def length_batch_results)
  moreover have "k \<le> length ps"
    using run_loop_outcome[of x n 1 0 ps s] assms(1) by simp
  ultimately have "fst (run_loop x n 1 0 (ps @ p # qs) s) \<noteq> n"
    using ct assms(3) by simp
  then have sg: "\<exists>m. signals (run x (ps @ p # qs) s) = signals s @ [InstallationFailed m]"
    using run_observed[of x "ps @ p # qs" s] w assms(3) by (simp del: show_nat.simps)
  show ?thesis
    unfolding Let_def s2_def[symmetric] rs_def[symmetric]
    using el at ct sg by (simp del: show_nat.simps)
qed

theorem package_error_is_caught_witness:
  "errlog (run demo_ext [U ''nometa.apg'', U ''demo-1.0.apg''] demo_state)
       = [failure_line (U ''nometa.apg'') (ValidationError (U ''metadata.json not found in package''))]
   \<and> attempts (run demo_ext [U ''nometa.apg'', U ''demo-1.0.apg''] demo_state)
       = [LogMessage (U ''Extracting nometa.apg...''), LogMessage (U ''Extracting demo-1.0.apg...'')]
   \<and> fst (run_loop demo_ext 2 1 0 [U ''nometa.apg'', U ''demo-1.0.apg''] demo_state) = 1"
proof -
  define s1 where "s1 = snd (install_package demo_ext (U ''nometa.apg'') demo_state)"
  have h1: "run_loop demo_ext 2 1 0 [] demo_state = (0, demo_state)" by simp
  have h2: "install_package demo_ext (U ''nometa.apg'') demo_state
              = (Inl (ValidationError (U ''metadata.json not found in package'')), s1)"
    by (simp add: s1_def nometa_install)
  have h3: "(2::nat) = length ([] @ U ''nometa.apg'' # [U ''demo-1.0.apg''])" by simp
  have r: "batch_results demo_ext 2 (length ([]::pystr list) + 2) [U ''demo-1.0.apg'']
             (emit (ProgressUpdated (batch_percent (length ([]::pystr list) + 1) 2))
                (logging_error (failure_line (U ''nometa.apg'')
                   (ValidationError (U ''metadata.json not found in package''))) s1))
           = [(U ''demo-1.0.apg'', Inr True)]"
    using nometa_then_demo by (simp add: loop_next_def h2)
  note t = package_error_is_caught[OF h1 h2 h3, unfolded Let_def r]
  have a: "attempts demo_state = []" "errlog demo_state = []"
    by (simp_all add: attempts_def demo_state_def)
  have n: "map attempt_line [U ''nometa.apg'', U ''demo-1.0.apg'']
           = [LogMessage (U ''Extracting nometa.apg...''), LogMessage (U ''Extracting demo-1.0.apg...'')]"
    by (simp add: attempt_line_def path_name_def Path_def components_def is_absolute_def U_def)
  from t a n show ?thesis by (simp del: run_loop.simps)
qed

subsection \<open>Progress across a batch\<close>











end
